theory Spec2Isabelle
  imports Complex_Main "HOL-Library.Multiset"
begin

section \<open>Numbers and dates\<close>

text \<open>
  The program is JavaScript; its numbers are binary64 floating-point numbers. A number
  is modelled as the \<open>real\<close> it denotes (finite values only: no NaN, no infinities), and
  \<open>binary64\<close> rounds a real to the nearest such number, ties to the even significand,
  as every arithmetic operation of the program does with its exact result. Counters,
  ranks and quantities that the code builds from indices or \<open>Math.floor\<close> are integers.

  Where a result decides something discrete, the rounding is part of the model: the
  percentage that is compared with a threshold (\<open>calculatePercentageChange\<close>), the
  quotient that \<open>Math.floor\<close> cuts (\<open>calculateRecommendedQuantity\<close>), and the balance
  that guards an investment (\<open>recordInvestment_binary64\<close>). The equations of the budget
  ledger, the profit split and the deviations of the ranking are stated over the exact
  values.
\<close>

definition roundNearestEven :: "real \<Rightarrow> int" where
  "roundNearestEven q =
     (let f = \<lfloor>q\<rfloor>; r = q - of_int f in
      if r < 1 / 2 then f else if 1 / 2 < r then f + 1 else if even f then f else f + 1)"

definition binary64 :: "real \<Rightarrow> real" where
  \<comment> \<open>53 significant bits, least exponent \<open>-1074\<close>; overflow is outside the model\<close>
  "binary64 x =
     (if x = 0 then 0
      else (let e = max (\<lfloor>log 2 \<bar>x\<bar>\<rfloor> - 52) (- 1074)
            in of_int (roundNearestEven (x / 2 powr of_int e)) * 2 powr of_int e))"

text \<open>
  A \<open>Date\<close> is its time value, the milliseconds since the epoch. The current time
  \<open>new Date()\<close> is an explicit argument \<open>now\<close> of every operation that reads it.
  \<open>getDay()\<close> and \<open>setDate(getDate() + 1)\<close> work on the local time of the host:
  \<open>getDay\<close> and \<open>addDay\<close> below are these two with the host's zone set to UTC (day 0
  of the epoch was a Thursday; 0 = Sunday, ..., 6 = Saturday), and the budget manager
  is modelled with them. \<open>getDay_local\<close> and \<open>setDateNext\<close> further down are the same
  operations in an arbitrary zone.
\<close>

type_synonym date = int

definition msPerDay :: int where
  "msPerDay = 86400000"

definition getDay :: "date \<Rightarrow> int" where
  "getDay d = (d div msPerDay + 4) mod 7"

definition addDay :: "date \<Rightarrow> date" where
  "addDay d = d + msPerDay"

text \<open>
  The host's time zone, as ECMAScript reads it: the offset of local time from UTC at a
  UTC time value, and the offset at a local time value. \<open>LocalTime\<close> and \<open>UTCTime\<close> are
  the conversions of the language specification; \<open>getDay()\<close> is the week day of the
  local time, and \<open>setDate(getDate() + 1)\<close> moves the local time one day on and
  converts back.
\<close>

record zone =
  offsetAtUTC :: "int \<Rightarrow> int"
  offsetAtLocal :: "int \<Rightarrow> int"

definition LocalTime :: "zone \<Rightarrow> date \<Rightarrow> int" where
  "LocalTime z t = t + offsetAtUTC z t"

definition UTCTime :: "zone \<Rightarrow> int \<Rightarrow> date" where
  "UTCTime z l = l - offsetAtLocal z l"

definition getDay_local :: "zone \<Rightarrow> date \<Rightarrow> int" where
  "getDay_local z d = (LocalTime z d div msPerDay + 4) mod 7"

definition setDateNext :: "zone \<Rightarrow> date \<Rightarrow> date" where
  "setDateNext z d = UTCTime z (LocalTime z d + msPerDay)"

definition fixedOffsetZone :: "int \<Rightarrow> zone" where
  \<comment> \<open>a zone without daylight saving: the same offset at every time\<close>
  "fixedOffsetZone off = \<lparr>offsetAtUTC = (\<lambda>t. off), offsetAtLocal = (\<lambda>l. off)\<rparr>"

section \<open>Utils (utils.js)\<close>

definition calculatePercentageChange :: "real \<Rightarrow> real \<Rightarrow> real" where
  \<comment> \<open>\<open>((newValue - oldValue) / oldValue) * 100\<close>, each operation rounded\<close>
  "calculatePercentageChange oldValue newValue =
     (if oldValue = 0 then 0
      else binary64 (binary64 (binary64 (newValue - oldValue) / oldValue) * 100))"

definition calculateDeviation :: "real \<Rightarrow> real \<Rightarrow> real" where
  "calculateDeviation cmp_v dma = (if dma = 0 then 0 else ((cmp_v - dma) / dma) * 100)"

text \<open>
  \<open>Utils.calculateEndDate(startDate, tradingDays)\<close>: the loop
  \<open>while (daysAdded < tradingDays) { currentDate.setDate(+1); if weekday: daysAdded++ }\<close>,
  in the host's zone. Nothing bounds the loop for an arbitrary zone, so a run that
  never ends is the value \<open>None\<close>. \<open>startDate\<close> is the time value that
  \<open>new Date(startDate)\<close> yields: for a date without a time, such as \<open>'1970-01-02'\<close>,
  midnight UTC of that day.
\<close>

partial_function (option) calculateEndDate_loop :: "zone \<Rightarrow> date \<Rightarrow> int \<Rightarrow> int \<Rightarrow> date option" where
  "calculateEndDate_loop z currentDate daysAdded tradingDays =
     (if daysAdded < tradingDays then
        (if getDay_local z (setDateNext z currentDate) \<noteq> 0 \<and>
            getDay_local z (setDateNext z currentDate) \<noteq> 6
         then calculateEndDate_loop z (setDateNext z currentDate) (daysAdded + 1) tradingDays
         else calculateEndDate_loop z (setDateNext z currentDate) daysAdded tradingDays)
      else Some currentDate)"

definition calculateEndDate :: "zone \<Rightarrow> date \<Rightarrow> int \<Rightarrow> date option" where
  "calculateEndDate z startDate tradingDays = calculateEndDate_loop z startDate 0 tradingDays"

section \<open>Budget manager (budget.js)\<close>

text \<open>
  \<open>BudgetManager\<close> keeps the budget in \<open>this.config\<close>, which is \<open>null\<close> until a
  budget is set. Every \<open>throw new Error(...)\<close> of the class is a constructor of
  \<open>error\<close>. A method mutates \<open>this.config\<close> in place and an exception does not roll
  a mutation back, so a method returns its outcome together with the manager it leaves.
\<close>

datatype error =
    MinimumBudget              \<comment> \<open>'Minimum budget is 5,000'\<close>
  | StartDateMissing           \<comment> \<open>'Please select start date'\<close>
  | NoBudgetConfiguration      \<comment> \<open>'No existing budget configuration found'\<close>
  | MinimumTopup               \<comment> \<open>'Minimum top-up amount is 1,000'\<close>
  | PeriodCompleted            \<comment> \<open>'Investment period has already completed'\<close>
  | InsufficientBudget real real  \<comment> \<open>'Insufficient budget. Available: ..., Required: ...'\<close>
  | SupabaseUnavailable        \<comment> \<open>'Supabase client not available. ...'\<close>
  | SaveFailed                 \<comment> \<open>'Failed to save budget configuration to database: ...'\<close>
  | DatabaseUnavailable        \<comment> \<open>'Database connection not available'\<close>
  | QueryFailed                \<comment> \<open>the error object of a failed query, rethrown\<close>

record budget_config =
  totalBudget :: real
  dailyAmount :: real
  startDate :: date
  usedAmount :: real
  reinvestedProfit :: real
  daysCompleted :: int
  createdDate :: date

record budget_manager =
  supabase :: bool  \<comment> \<open>whether \<open>this.supabase\<close> holds a client\<close>
  config :: "budget_config option"

text \<open>
  What the methods read from outside the object: the clock, and whether a write to the
  \<open>budget_config\<close> table succeeds.
\<close>

record environment =
  now :: date
  writeSucceeds :: bool

text \<open>
  \<open>saveConfig\<close> only writes to the database. Callers that \<open>await\<close> it see its
  exception; \<open>recordInvestment\<close>, \<open>calculateDaysCompleted\<close> and
  \<open>addProfitToReinvestment\<close> call it without \<open>await\<close>, so there a failure is a
  rejected promise nobody observes.
\<close>

definition saveConfig :: "environment \<Rightarrow> budget_manager \<Rightarrow> error + unit" where
  "saveConfig env bm =
     (case config bm of
        None \<Rightarrow> Inr ()
      | Some c \<Rightarrow>
          if \<not> supabase bm then Inl SupabaseUnavailable
          else if \<not> writeSucceeds env then Inl SaveFailed
          else Inr ())"

text \<open>
  The class body declares \<open>calculateDaysCompleted\<close> twice. The second declaration
  (no parameter, stores the result in \<open>this.config.daysCompleted\<close>) replaces the first
  at run time and is the one modelled.
\<close>

function calculateDaysCompleted_loop :: "date \<Rightarrow> date \<Rightarrow> int \<Rightarrow> int" where
  "calculateDaysCompleted_loop checkDate currentDate n =
     (if checkDate \<le> currentDate \<and> n < 50
      then calculateDaysCompleted_loop (addDay checkDate) currentDate
             (if getDay checkDate \<noteq> 0 \<and> getDay checkDate \<noteq> 6 then n + 1 else n)
      else n)"
  by pat_completeness auto
termination
  by (relation "measure (\<lambda>(c, t, n). nat (t - c + 1))")
     (auto simp: addDay_def msPerDay_def)

declare calculateDaysCompleted_loop.simps [simp del]

definition calculateDaysCompleted :: "environment \<Rightarrow> budget_manager \<Rightarrow> int \<times> budget_manager" where
  "calculateDaysCompleted env bm =
     (case config bm of
        None \<Rightarrow> (0, bm)
      | Some c \<Rightarrow>
          (let n = min (calculateDaysCompleted_loop (startDate c) (now env) 0) 50
           in (n, bm\<lparr>config := Some (c\<lparr>daysCompleted := n\<rparr>)\<rparr>)))"

definition getRemainingDays :: "environment \<Rightarrow> budget_manager \<Rightarrow> int \<times> budget_manager" where
  "getRemainingDays env bm =
     (case config bm of
        None \<Rightarrow> (50, bm)
      | Some c \<Rightarrow>
          (let (d, bm') = calculateDaysCompleted env bm in (max 0 (50 - d), bm')))"

text \<open>
  \<open>updateDisplay\<close> writes to the page. What it does to the object is the call of
  \<open>getRemainingDays\<close>, which refreshes \<open>daysCompleted\<close>.
\<close>

definition updateDisplay :: "environment \<Rightarrow> budget_manager \<Rightarrow> budget_manager" where
  "updateDisplay env bm = snd (getRemainingDays env bm)"

definition getAvailableAmount :: "budget_manager \<Rightarrow> real" where
  "getAvailableAmount bm =
     (case config bm of
        None \<Rightarrow> 0
      | Some c \<Rightarrow> totalBudget c - usedAmount c + reinvestedProfit c)"

definition getDailyAmount :: "budget_manager \<Rightarrow> real" where
  "getDailyAmount bm = (case config bm of None \<Rightarrow> 0 | Some c \<Rightarrow> dailyAmount c)"

definition setBudget ::
  "environment \<Rightarrow> budget_manager \<Rightarrow> real \<Rightarrow> date option
     \<Rightarrow> (error + budget_config option) \<times> budget_manager" where
  "setBudget env bm totalBudget_v start_arg =
     (if totalBudget_v = 0 \<or> totalBudget_v < 5000 then (Inl MinimumBudget, bm)
      else case start_arg of
        None \<Rightarrow> (Inl StartDateMissing, bm)
      | Some start \<Rightarrow>
          (let bm1 = bm\<lparr>config := Some \<lparr>totalBudget = totalBudget_v, dailyAmount = totalBudget_v / 50,
                         startDate = start, usedAmount = 0, reinvestedProfit = 0,
                         daysCompleted = 0, createdDate = now env\<rparr>\<rparr>
           in case saveConfig env bm1 of
                Inl e \<Rightarrow> (Inl e, bm1)
              | Inr _ \<Rightarrow> (let bm2 = updateDisplay env bm1 in (Inr (config bm2), bm2))))"

record topup_result =
  oldBudget :: real
  newBudget :: real
  topupAmount :: real
  oldDailyAmount :: real
  newDailyAmount :: real
  remainingDays :: int
  usedAmount_r :: real
  availableAmount :: real

definition topupBudget ::
  "environment \<Rightarrow> budget_manager \<Rightarrow> real \<Rightarrow> (error + topup_result) \<times> budget_manager" where
  "topupBudget env bm additionalAmount =
     (case config bm of
        None \<Rightarrow> (Inl NoBudgetConfiguration, bm)
      | Some c0 \<Rightarrow>
          if additionalAmount = 0 \<or> additionalAmount < 1000 then (Inl MinimumTopup, bm)
          else
            (let (remaining, bm1) = getRemainingDays env bm in
             if remaining \<le> 0 then (Inl PeriodCompleted, bm1)
             else case config bm1 of
               None \<Rightarrow> (Inl NoBudgetConfiguration, bm1)
             | Some c \<Rightarrow>
                 (let oldTotalBudget = totalBudget c;
                      newTotalBudget = oldTotalBudget + additionalAmount;
                      newDailyAmount_v = newTotalBudget / 50;
                      bm2 = bm1\<lparr>config := Some (c\<lparr>totalBudget := newTotalBudget,
                                                    dailyAmount := newDailyAmount_v\<rparr>)\<rparr>
                  in case saveConfig env bm2 of
                       Inl e \<Rightarrow> (Inl e, bm2)
                     | Inr _ \<Rightarrow>
                         (let bm3 = updateDisplay env bm2 in
                          (Inr \<lparr>oldBudget = oldTotalBudget, newBudget = newTotalBudget,
                                 topupAmount = additionalAmount,
                                 oldDailyAmount = oldTotalBudget / 50,
                                 newDailyAmount = newDailyAmount_v,
                                 remainingDays = remaining,
                                 usedAmount_r = usedAmount c,
                                 availableAmount = getAvailableAmount bm3\<rparr>, bm3)))))"

definition recordInvestment ::
  "environment \<Rightarrow> budget_manager \<Rightarrow> real \<Rightarrow> (error + bool) \<times> budget_manager" where
  "recordInvestment env bm amount =
     (case config bm of
        None \<Rightarrow> (Inr False, bm)
      | Some c \<Rightarrow>
          (let available = getAvailableAmount bm in
           if amount > available then (Inl (InsufficientBudget available amount), bm)
           else
             (let bm1 = bm\<lparr>config := Some (c\<lparr>usedAmount := usedAmount c + amount\<rparr>)\<rparr>
              in (Inr True, updateDisplay env bm1))))"

text \<open>
  \<open>recordInvestment\<close> with the arithmetic of the program: the balance is
  \<open>(totalBudget - usedAmount) + reinvestedProfit\<close> with both operations rounded, and
  \<open>usedAmount += amount\<close> stores the rounded sum.
\<close>

definition getAvailableAmount_binary64 :: "budget_manager \<Rightarrow> real" where
  "getAvailableAmount_binary64 bm =
     (case config bm of
        None \<Rightarrow> 0
      | Some c \<Rightarrow> binary64 (binary64 (totalBudget c - usedAmount c) + reinvestedProfit c))"

definition recordInvestment_binary64 ::
  "environment \<Rightarrow> budget_manager \<Rightarrow> real \<Rightarrow> (error + bool) \<times> budget_manager" where
  "recordInvestment_binary64 env bm amount =
     (case config bm of
        None \<Rightarrow> (Inr False, bm)
      | Some c \<Rightarrow>
          (let available = getAvailableAmount_binary64 bm in
           if amount > available then (Inl (InsufficientBudget available amount), bm)
           else
             (let bm1 = bm\<lparr>config := Some (c\<lparr>usedAmount := binary64 (usedAmount c + amount)\<rparr>)\<rparr>
              in (Inr True, updateDisplay env bm1))))"

text \<open>
  The day counter of \<open>calculateDaysCompleted\<close> in the host's zone: the loop from the
  start date to the current time and the cap at 50. As for \<open>calculateEndDate\<close>, a run
  that never ends is \<open>None\<close>.
\<close>

partial_function (option) calculateDaysCompleted_local_loop ::
    "zone \<Rightarrow> date \<Rightarrow> date \<Rightarrow> int \<Rightarrow> int option" where
  "calculateDaysCompleted_local_loop z checkDate currentDate n =
     (if checkDate \<le> currentDate \<and> n < 50
      then calculateDaysCompleted_local_loop z (setDateNext z checkDate) currentDate
             (if getDay_local z checkDate \<noteq> 0 \<and> getDay_local z checkDate \<noteq> 6
              then n + 1 else n)
      else Some n)"

definition calculateDaysCompleted_local :: "zone \<Rightarrow> date \<Rightarrow> date \<Rightarrow> int option" where
  \<comment> \<open>start date of the budget, current time\<close>
  "calculateDaysCompleted_local z start currentDate =
     map_option (\<lambda>n. min n 50) (calculateDaysCompleted_local_loop z start currentDate 0)"

datatype tax_type = STCG | LTCG

record profit_allocation =
  totalProfit :: real
  taxType :: tax_type
  taxRate :: real
  taxAmount :: real
  brokerageAmount :: real
  reinvestmentAmount :: real
  netAmount :: real
  holdingPeriod :: real

definition calculateProfitAllocation :: "real \<Rightarrow> real \<Rightarrow> profit_allocation option" where
  "calculateProfitAllocation profit holdingPeriod_v =
     (if profit \<le> 0 then None
      else
        (let isSTCG = (holdingPeriod_v \<le> 365);
             taxRate_v = (if isSTCG then 0.15 else 0.125);
             brokerageRate = 0.05;
             reinvestmentRate = 0.80;
             taxAmount_v = profit * taxRate_v;
             brokerageAmount_v = profit * brokerageRate;
             reinvestmentAmount_v = profit * reinvestmentRate
         in Some \<lparr>totalProfit = profit,
                   taxType = (if isSTCG then STCG else LTCG),
                   taxRate = taxRate_v * 100,
                   taxAmount = taxAmount_v,
                   brokerageAmount = brokerageAmount_v,
                   reinvestmentAmount = reinvestmentAmount_v,
                   netAmount = profit - taxAmount_v - brokerageAmount_v,
                   holdingPeriod = holdingPeriod_v\<rparr>))"

definition addProfitToReinvestment ::
  "environment \<Rightarrow> budget_manager \<Rightarrow> profit_allocation option \<Rightarrow> bool \<times> budget_manager" where
  "addProfitToReinvestment env bm profitAllocation =
     (case (config bm, profitAllocation) of
        (Some c, Some a) \<Rightarrow>
          (let bm1 = bm\<lparr>config := Some (c\<lparr>reinvestedProfit :=
                                       reinvestedProfit c + reinvestmentAmount a\<rparr>)\<rparr>
           in (True, updateDisplay env bm1))
      | _ \<Rightarrow> (False, bm))"

section \<open>Trading strategy (trading.js)\<close>

record strategy_config =
  maxRankToConsider :: nat
  averagingLossThreshold :: real
  profitThreshold :: real
  defaultQuantity :: int

definition TradingStrategy_config :: strategy_config where
  \<comment> \<open>the configuration the constructor installs\<close>
  "TradingStrategy_config =
     \<lparr>maxRankToConsider = 5, averagingLossThreshold = - 2.5,
      profitThreshold = 6.0, defaultQuantity = 1\<rparr>"

text \<open>Rows of the \<open>etfs\<close> table; ids are UUIDs. \<open>{ ...etf, deviation }\<close> extends a row.\<close>

record etf =
  id' :: string
  name :: string
  cmp :: real
  dma_20 :: real

record ranked_etf = etf +
  deviation :: real

text \<open>
  An active holding as \<open>getCurrentHoldings\<close> selects it: the row and, under \<open>etfs\<close>,
  the name and price of its instrument. \<open>date_purchased\<close> is the time value that
  \<open>new Date(h.date_purchased)\<close> yields.
\<close>

record joined_etf =
  name_j :: string
  cmp_j :: real

record holding =
  id_h :: string
  etf_id :: string
  buy_price :: real
  quantity :: int
  date_purchased :: date
  etfs :: joined_etf


text \<open>
  \<open>Array.prototype.sort\<close> with a comparison function is stable, and with a consistent
  comparison function its result is the one stable sorted arrangement; insertion from
  the right computes it.
\<close>

fun js_insert :: "('a \<Rightarrow> 'a \<Rightarrow> 'b::{zero,ord}) \<Rightarrow> 'a \<Rightarrow> 'a list \<Rightarrow> 'a list" where
  "js_insert c x [] = [x]"
| "js_insert c x (y # ys) = (if c x y \<le> 0 then x # y # ys else y # js_insert c x ys)"

definition js_sort :: "('a \<Rightarrow> 'a \<Rightarrow> 'b::{zero,ord}) \<Rightarrow> 'a list \<Rightarrow> 'a list" where
  "js_sort c xs = foldr (js_insert c) xs []"

subsection \<open>Ranking\<close>

datatype 'a query_result = Rows 'a | QueryError

record trading_db =
  connected :: bool                          \<comment> \<open>whether \<open>this.supabase\<close> holds a client\<close>
  etfs_query :: "etf list query_result"      \<comment> \<open>answer to \<open>from('etfs').select('*')\<close>\<close>
  ranks_insert_ok :: bool                    \<comment> \<open>whether the insert into \<open>ranks\<close> succeeds\<close>

datatype ranking =
  Ranking (ranking_etf_id: string) (rank: nat) (ranking_deviation: real) (ranking_etf: ranked_etf)

definition withDeviation :: "etf \<Rightarrow> ranked_etf" where
  \<comment> \<open>the body of \<open>etfs.map(etf => ...)\<close>\<close>
  "withDeviation e =
     \<lparr>id' = id' e, name = name e, cmp = cmp e, dma_20 = dma_20 e,
      deviation = calculateDeviation (cmp e) (dma_20 e)\<rparr>"

fun rankFrom :: "nat \<Rightarrow> ranked_etf list \<Rightarrow> ranking list" where
  \<comment> \<open>\<open>rankedETFs.map((etf, index) => ...)\<close>, \<open>index\<close> counted from the first argument\<close>
  "rankFrom i [] = []"
| "rankFrom i (e # es) = Ranking (id' e) (i + 1) (deviation e) e # rankFrom (i + 1) es"

text \<open>
  \<open>calculateRankings\<close> returns \<open>rankedETFs\<close> and caches \<open>this.currentRankings\<close>; the
  model returns both.
\<close>

definition calculateRankings :: "trading_db \<Rightarrow> error + (ranked_etf list \<times> ranking list)" where
  "calculateRankings db =
     (if \<not> connected db then Inl DatabaseUnavailable
      else case etfs_query db of
        QueryError \<Rightarrow> Inl QueryFailed
      | Rows rows \<Rightarrow>
          (let etfsWithDeviations = map withDeviation rows;
               rankedETFs = js_sort (\<lambda>a b. deviation a - deviation b) etfsWithDeviations
           in if \<not> ranks_insert_ok db then Inl QueryFailed
              else Inr (rankedETFs, rankFrom 0 rankedETFs)))"

subsection \<open>Buy decision\<close>

text \<open>
  The \<open>reason\<close> strings are rendered from the values kept here
  (\<open>toFixed(2)\<close> formatting is presentation).
\<close>

datatype reason =
    RankNotHeld nat real     \<comment> \<open>'Rank i ETF not held (d% deviation)'\<close>
  | EligibleCount nat        \<comment> \<open>'n eligible ETFs available for purchase'\<close>
  | AveragingDown real       \<comment> \<open>'l% loss - averaging down'\<close>
  | Lifo real                \<comment> \<open>'LIFO with p% profit'\<close>

datatype buy_option =
  BUY (option_etf: ranked_etf) (option_reason: reason) (option_quantity: int) (option_rank: nat)

datatype buy_action =
    MULTIPLE_OPTIONS (options: "buy_option list") (defaultOption: buy_option) reason
  | AVERAGE ranked_etf reason int

definition calculateRecommendedQuantity :: "strategy_config \<Rightarrow> budget_manager \<Rightarrow> real \<Rightarrow> int" where
  "calculateRecommendedQuantity cfg bm price =
     (let dailyAmount_v = getDailyAmount bm in
      if dailyAmount_v = 0 then defaultQuantity cfg
      else (let maxQuantity = \<lfloor>binary64 (dailyAmount_v / price)\<rfloor> in max 1 maxQuantity))"

fun eligible_loop ::
  "strategy_config \<Rightarrow> budget_manager \<Rightarrow> string list \<Rightarrow> nat \<Rightarrow> ranked_etf list \<Rightarrow> buy_option list" where
  \<comment> \<open>the body of the \<open>for\<close> loop of rule 1, from index \<open>i\<close> over the remaining rows\<close>
  "eligible_loop cfg bm heldETFIds i [] = []"
| "eligible_loop cfg bm heldETFIds i (e # es) =
     (if id' e \<notin> set heldETFIds
      then BUY e (RankNotHeld (i + 1) (deviation e))
               (calculateRecommendedQuantity cfg bm (cmp e)) (i + 1)
             # eligible_loop cfg bm heldETFIds (i + 1) es
      else eligible_loop cfg bm heldETFIds (i + 1) es)"

fun average_loop ::
  "strategy_config \<Rightarrow> budget_manager \<Rightarrow> ranked_etf list \<Rightarrow> holding list \<Rightarrow> buy_action option" where
  \<comment> \<open>the \<open>for (const holding of holdings)\<close> loop of rule 2\<close>
  "average_loop cfg bm rankedETFs [] = None"
| "average_loop cfg bm rankedETFs (h # hs) =
     (case find (\<lambda>e. id' e = etf_id h) rankedETFs of
        None \<Rightarrow> average_loop cfg bm rankedETFs hs
      | Some e \<Rightarrow>
          (let lossPercent = calculatePercentageChange (buy_price h) (cmp e) in
           if lossPercent \<le> averagingLossThreshold cfg
           then Some (AVERAGE e (AveragingDown lossPercent)
                        (calculateRecommendedQuantity cfg bm (cmp e)))
           else average_loop cfg bm rankedETFs hs))"

definition determineBuyAction ::
  "strategy_config \<Rightarrow> budget_manager \<Rightarrow> ranked_etf list \<Rightarrow> string list \<Rightarrow> holding list
     \<Rightarrow> buy_action option" where
  "determineBuyAction cfg bm rankedETFs heldETFIds holdings =
     (let eligibleETFs =
            eligible_loop cfg bm heldETFIds 0
              (take (min (maxRankToConsider cfg) (length rankedETFs)) rankedETFs)
      in case eligibleETFs of
           first # _ \<Rightarrow>
             Some (MULTIPLE_OPTIONS eligibleETFs first (EligibleCount (length eligibleETFs)))
         | [] \<Rightarrow> average_loop cfg bm rankedETFs holdings)"

subsection \<open>Sell decision\<close>




section \<open>Example inputs\<close>

definition exampleConfig :: budget_config where
  "exampleConfig =
     \<lparr>totalBudget = 50000, dailyAmount = 250, startDate = 0, usedAmount = 2000,
      reinvestedProfit = 500, daysCompleted = 0, createdDate = 0\<rparr>"

definition exampleManager :: budget_manager where
  "exampleManager = \<lparr>supabase = True, config = Some exampleConfig\<rparr>"

definition unconfiguredManager :: budget_manager where
  "unconfiguredManager = \<lparr>supabase = True, config = None\<rparr>"

definition exampleEnv :: environment where
  \<comment> \<open>the clock stands at the budget's start date, a Thursday\<close>
  "exampleEnv = \<lparr>now = 0, writeSucceeds = True\<rparr>"

definition exampleRows :: "etf list" where
  "exampleRows =
     [\<lparr>id' = ''A'', name = ''ALPHA'', cmp = 110, dma_20 = 100\<rparr>,
      \<lparr>id' = ''B'', name = ''BETA'', cmp = 90, dma_20 = 100\<rparr>,
      \<lparr>id' = ''C'', name = ''GAMMA'', cmp = 50, dma_20 = 0\<rparr>]"

definition exampleDb :: trading_db where
  "exampleDb = \<lparr>connected = True, etfs_query = Rows exampleRows, ranks_insert_ok = True\<rparr>"

definition exampleRanked :: "ranked_etf list" where
  \<comment> \<open>\<open>exampleRows\<close> as \<open>calculateRankings\<close> orders them\<close>
  "exampleRanked =
     [\<lparr>id' = ''B'', name = ''BETA'', cmp = 90, dma_20 = 100, deviation = - 10\<rparr>,
      \<lparr>id' = ''C'', name = ''GAMMA'', cmp = 50, dma_20 = 0, deviation = 0\<rparr>,
      \<lparr>id' = ''A'', name = ''ALPHA'', cmp = 110, dma_20 = 100, deviation = 10\<rparr>]"

definition exampleHolding :: "string \<Rightarrow> date \<Rightarrow> holding" where
  \<comment> \<open>one unit of an instrument bought at 100 that now trades at 110\<close>
  "exampleHolding i d =
     \<lparr>id_h = i, etf_id = ''A'', buy_price = 100, quantity = 1, date_purchased = d,
      etfs = \<lparr>name_j = ''ALPHA'', cmp_j = 110\<rparr>\<rparr>"





definition overdrawnConfig :: budget_config where
  \<comment> \<open>each amount is the number that its decimal denotes in the program\<close>
  "overdrawnConfig =
     \<lparr>totalBudget = binary64 95626.17, dailyAmount = binary64 (binary64 95626.17 / 50),
      startDate = 0, usedAmount = binary64 58289.46, reinvestedProfit = binary64 70.93,
      daysCompleted = 1, createdDate = 0\<rparr>"

definition overdrawnManager :: budget_manager where
  "overdrawnManager = \<lparr>supabase = True, config = Some overdrawnConfig\<rparr>"

definition utcMinus5 :: zone where
  \<comment> \<open>five hours behind UTC all year, as \<open>America/Bogota\<close> or \<open>Etc/GMT+5\<close>\<close>
  "utcMinus5 = fixedOffsetZone (- 18000000)"

section \<open>Rounding to binary64\<close>

lemma roundNearestEven_near:
  assumes "\<bar>q - of_int m\<bar> < 1 / 2"
  shows "roundNearestEven q = m"
proof (cases "of_int m \<le> q")
  case True
  with assms have "\<lfloor>q\<rfloor> = m"
    by (intro floor_unique) simp_all
  with assms True show ?thesis
    by (simp add: roundNearestEven_def Let_def)
next
  case False
  with assms have "\<lfloor>q\<rfloor> = m - 1"
    by (intro floor_unique) simp_all
  with assms False show ?thesis
    by (simp add: roundNearestEven_def Let_def)
qed

lemma roundNearestEven_tie_up:
  assumes "q = of_int m - 1 / 2" "even m"
  shows "roundNearestEven q = m"
proof -
  from assms(1) have "\<lfloor>q\<rfloor> = m - 1"
    by (intro floor_unique) simp_all
  with assms show ?thesis
    by (simp add: roundNearestEven_def Let_def)
qed

lemma roundNearestEven_tie_down:
  assumes "q = of_int m + 1 / 2" "even m"
  shows "roundNearestEven q = m"
proof -
  from assms(1) have "\<lfloor>q\<rfloor> = m"
    by (intro floor_unique) simp_all
  with assms show ?thesis
    by (simp add: roundNearestEven_def Let_def)
qed

text \<open>
  A value is rounded by scaling it into the range of the 53-bit integers: if
  \<open>\<bar>x\<bar> * 2 ^ n\<close> lies between \<open>2 ^ 52\<close> and \<open>2 ^ 53\<close>, then \<open>x\<close> rounds to the nearest
  multiple of \<open>1 / 2 ^ n\<close>.
\<close>

lemma binary64_scaled:
  assumes n: "n \<le> 1074"
      and lo: "2 ^ 52 \<le> \<bar>x\<bar> * 2 ^ n"
      and hi: "\<bar>x\<bar> * 2 ^ n < 2 ^ 53"
  shows "binary64 x = of_int (roundNearestEven (x * 2 ^ n)) / 2 ^ n"
proof -
  have x0: "x \<noteq> 0"
    using lo by auto
  have p: "(2::real) powr (real k - real n) = 2 ^ k / 2 ^ n" for k :: nat
  proof -
    have "(2::real) powr (real k - real n) = 2 powr real k / 2 powr real n"
      by (rule powr_diff)
    also have "\<dots> = 2 ^ k / 2 ^ n"
      by (simp add: powr_realpow)
    finally show ?thesis .
  qed
  have a: "(2::real) powr of_int (52 - int n) \<le> \<bar>x\<bar>"
  proof -
    have "(2::real) powr of_int (52 - int n) = 2 powr (real 52 - real n)"
      by simp
    also have "\<dots> = 2 ^ 52 / 2 ^ n"
      by (rule p)
    also have "\<dots> \<le> \<bar>x\<bar>"
      using lo by (simp add: field_simps)
    finally show ?thesis .
  qed
  have b: "\<bar>x\<bar> < (2::real) powr of_int (52 - int n + 1)"
  proof -
    have "\<bar>x\<bar> < 2 ^ 53 / 2 ^ n"
      using hi by (simp add: field_simps)
    also have "\<dots> = 2 powr (real 53 - real n)"
      by (rule p [symmetric])
    also have "\<dots> = (2::real) powr of_int (52 - int n + 1)"
      by simp
    finally show ?thesis .
  qed
  have "\<lfloor>log 2 \<bar>x\<bar>\<rfloor> = 52 - int n"
    using x0 a b floor_log_eq_powr_iff [of "\<bar>x\<bar>" 2 "52 - int n"] by simp
  then have e: "max (\<lfloor>log 2 \<bar>x\<bar>\<rfloor> - 52) (- 1074) = - int n"
    using n by simp
  have s: "(2::real) powr of_int (- int n) = 1 / 2 ^ n"
  proof -
    have "(2::real) powr of_int (- int n) = 2 powr (real 0 - real n)"
      by simp
    also have "\<dots> = 2 ^ 0 / 2 ^ n"
      by (rule p)
    finally show ?thesis by simp
  qed
  have "binary64 x = of_int (roundNearestEven (x / 2 powr of_int (- int n))) * 2 powr of_int (- int n)"
    using x0 by (simp only: binary64_def e Let_def if_False)
  also have "\<dots> = of_int (roundNearestEven (x * 2 ^ n)) / 2 ^ n"
    unfolding s by simp
  finally show ?thesis .
qed

lemma binary64_eq:
  assumes "n \<le> 1074" "2 ^ 52 \<le> \<bar>x\<bar> * 2 ^ n" "\<bar>x\<bar> * 2 ^ n < 2 ^ 53"
      and "\<bar>x * 2 ^ n - of_int m\<bar> < 1 / 2"
  shows "binary64 x = of_int m / 2 ^ n"
  using binary64_scaled [OF assms(1-3)] roundNearestEven_near [OF assms(4)] by simp

lemma binary64_tie_up:
  assumes "n \<le> 1074" "2 ^ 52 \<le> \<bar>x\<bar> * 2 ^ n" "\<bar>x\<bar> * 2 ^ n < 2 ^ 53"
      and "x * 2 ^ n = of_int m - 1 / 2" "even m"
  shows "binary64 x = of_int m / 2 ^ n"
  using binary64_scaled [OF assms(1-3)] roundNearestEven_tie_up [OF assms(4,5)] by simp

lemma binary64_tie_down:
  assumes "n \<le> 1074" "2 ^ 52 \<le> \<bar>x\<bar> * 2 ^ n" "\<bar>x\<bar> * 2 ^ n < 2 ^ 53"
      and "x * 2 ^ n = of_int m + 1 / 2" "even m"
  shows "binary64 x = of_int m / 2 ^ n"
  using binary64_scaled [OF assms(1-3)] roundNearestEven_tie_down [OF assms(4,5)] by simp


lemma calculatePercentageChange_100_90:
  "calculatePercentageChange 100 90 = - 10"
proof -
  have a: "binary64 (90 - 100) = - 10"
    using binary64_eq [of 49 "90 - 100" "- 5629499534213120"] by simp
  have b: "binary64 (- 10 / 100) = - 3602879701896397 / 2 ^ 55"
    using binary64_eq [of 56 "- 10 / 100" "- 7205759403792794"] by simp
  have c: "binary64 (- 3602879701896397 / 2 ^ 55 * 100) = - 10"
    using binary64_eq [of 49 "- 3602879701896397 / 2 ^ 55 * 100" "- 5629499534213120"] by simp
  show ?thesis
    unfolding calculatePercentageChange_def a b c by simp
qed


lemma quantity_250_at_50:
  "calculateRecommendedQuantity cfg exampleManager 50 = 5"
proof -
  have g: "getDailyAmount exampleManager = 250"
    by (simp add: getDailyAmount_def exampleManager_def exampleConfig_def)
  have q: "binary64 (250 / 50) = 5"
    using binary64_eq [of 50 "250 / 50" 5629499534213120] by simp
  show ?thesis
    unfolding calculateRecommendedQuantity_def g Let_def q by simp
qed

lemma quantity_250_at_110:
  "calculateRecommendedQuantity cfg exampleManager 110 = 2"
proof -
  have g: "getDailyAmount exampleManager = 250"
    by (simp add: getDailyAmount_def exampleManager_def exampleConfig_def)
  have q: "binary64 (250 / 110) = 5117726849284655 / 2 ^ 51"
    using binary64_eq [of 51 "250 / 110" 5117726849284655] by simp
  show ?thesis
    unfolding calculateRecommendedQuantity_def g Let_def q by simp
qed

lemma quantity_250_at_90:
  "calculateRecommendedQuantity cfg exampleManager 90 = 2"
proof -
  have g: "getDailyAmount exampleManager = 250"
    by (simp add: getDailyAmount_def exampleManager_def exampleConfig_def)
  have q: "binary64 (250 / 90) = 3127499741229511 / 2 ^ 50"
    using binary64_eq [of 51 "250 / 90" 6254999482459022] by simp
  show ?thesis
    unfolding calculateRecommendedQuantity_def g Let_def q by simp
qed



section \<open>The budget ledger: facts about the methods\<close>

lemma calculateDaysCompleted_Some:
  "config bm = Some c \<Longrightarrow>
   calculateDaysCompleted env bm =
     (min (calculateDaysCompleted_loop (startDate c) (now env) 0) 50,
      bm\<lparr>config := Some (c\<lparr>daysCompleted := min (calculateDaysCompleted_loop (startDate c) (now env) 0) 50\<rparr>)\<rparr>)"
  by (simp add: calculateDaysCompleted_def Let_def)

lemma updateDisplay_Some:
  "config bm = Some c \<Longrightarrow>
   updateDisplay env bm =
     bm\<lparr>config := Some (c\<lparr>daysCompleted := min (calculateDaysCompleted_loop (startDate c) (now env) 0) 50\<rparr>)\<rparr>"
  by (simp add: updateDisplay_def getRemainingDays_def calculateDaysCompleted_Some)

lemma updateDisplay_None: "config bm = None \<Longrightarrow> updateDisplay env bm = bm"
  by (simp add: updateDisplay_def getRemainingDays_def)

lemma getAvailableAmount_updateDisplay:
  "getAvailableAmount (updateDisplay env bm) = getAvailableAmount bm"
  by (cases "config bm") (simp_all add: getAvailableAmount_def updateDisplay_Some updateDisplay_None)

lemma setBudget_success:
  "fst (setBudget env bm t d) = Inr r \<Longrightarrow>
   \<exists>c'. config (snd (setBudget env bm t d)) = Some c' \<and> r = Some c' \<and>
        totalBudget c' = t \<and> dailyAmount c' = t / 50 \<and> usedAmount c' = 0 \<and>
        reinvestedProfit c' = 0 \<and> getAvailableAmount (snd (setBudget env bm t d)) = t"
  by (auto simp: setBudget_def Let_def updateDisplay_Some getAvailableAmount_def
           split: if_splits option.splits sum.splits)

lemma setBudget_configured:
  "config bm = Some c \<Longrightarrow> \<exists>c'. config (snd (setBudget env bm t d)) = Some c'"
  by (simp add: setBudget_def Let_def updateDisplay_Some split: option.split sum.split)

lemma topupBudget_cases:
  assumes "config bm = Some c"
  shows "topupBudget env bm a =
     (if a < 1000 then (Inl MinimumTopup, bm)
      else let n = min (calculateDaysCompleted_loop (startDate c) (now env) 0) 50;
               c1 = c\<lparr>daysCompleted := n\<rparr>;
               c2 = c1\<lparr>totalBudget := totalBudget c + a, dailyAmount := (totalBudget c + a) / 50\<rparr>
           in if 50 - n \<le> 0 then (Inl PeriodCompleted, bm\<lparr>config := Some c1\<rparr>)
              else if \<not> supabase bm then (Inl SupabaseUnavailable, bm\<lparr>config := Some c2\<rparr>)
              else if \<not> writeSucceeds env then (Inl SaveFailed, bm\<lparr>config := Some c2\<rparr>)
              else (Inr \<lparr>oldBudget = totalBudget c, newBudget = totalBudget c + a,
                         topupAmount = a, oldDailyAmount = totalBudget c / 50,
                         newDailyAmount = (totalBudget c + a) / 50,
                         remainingDays = max 0 (50 - n), usedAmount_r = usedAmount c,
                         availableAmount = totalBudget c + a - usedAmount c + reinvestedProfit c\<rparr>,
                    bm\<lparr>config := Some c2\<rparr>))"
  using assms
  by (auto simp: topupBudget_def getRemainingDays_def calculateDaysCompleted_Some Let_def
        saveConfig_def updateDisplay_Some getAvailableAmount_def)

lemma addProfitToReinvestment_Some:
  "config bm = Some c \<Longrightarrow>
   addProfitToReinvestment env bm (Some p) =
     (True, bm\<lparr>config := Some (c\<lparr>reinvestedProfit := reinvestedProfit c + reinvestmentAmount p,
                   daysCompleted := min (calculateDaysCompleted_loop (startDate c) (now env) 0) 50\<rparr>)\<rparr>)"
  by (simp add: addProfitToReinvestment_def Let_def updateDisplay_Some)

lemma addProfitToReinvestment_None:
  "addProfitToReinvestment env bm None = (False, bm)"
  by (simp add: addProfitToReinvestment_def split: option.split)

lemma recordInvestment_Some:
  "config bm = Some c \<Longrightarrow>
   recordInvestment env bm amount =
     (if amount > totalBudget c - usedAmount c + reinvestedProfit c
      then (Inl (InsufficientBudget (totalBudget c - usedAmount c + reinvestedProfit c) amount), bm)
      else (Inr True, bm\<lparr>config := Some (c\<lparr>usedAmount := usedAmount c + amount,
                   daysCompleted := min (calculateDaysCompleted_loop (startDate c) (now env) 0) 50\<rparr>)\<rparr>))"
  by (simp add: recordInvestment_def Let_def updateDisplay_Some getAvailableAmount_def)

lemma exampleDays: "calculateDaysCompleted_loop 0 0 0 = 1"
  by (simp add: calculateDaysCompleted_loop.simps [of 0 0 0]
        calculateDaysCompleted_loop.simps [of 86400000 0 1] getDay_def addDay_def msPerDay_def)

section \<open>The budget ledger: claims\<close>

text \<open>
  Claim C10. While no budget is configured, \<open>recordInvestment(amount)\<close> returns
  \<open>false\<close> for every amount: nothing is thrown and the manager is left as it was.
\<close>

theorem recordInvestment_unconfigured:
  "config bm = None \<Longrightarrow> recordInvestment env bm amount = (Inr False, bm)"
  by (simp add: recordInvestment_def)

theorem recordInvestment_unconfigured_witness:
  "config unconfiguredManager = None \<and>
   recordInvestment exampleEnv unconfiguredManager 1000000 = (Inr False, unconfiguredManager)"
  using recordInvestment_unconfigured [of unconfiguredManager exampleEnv 1000000]
  by (simp add: unconfiguredManager_def)

text \<open>
  Claim C3. On a configured budget the available amount is
  \<open>totalBudget - usedAmount + reinvestedProfit\<close>, and after each of \<open>setBudget\<close>,
  \<open>topupBudget\<close>, \<open>recordInvestment\<close> and \<open>addProfitToReinvestment\<close>, whatever its
  outcome, the budget is still configured and the equation holds of the fields it then
  has. A successful \<open>setBudget\<close> makes the whole new budget available, a successful
  top-up adds its amount, a recorded investment takes its amount away and a profit
  allocation adds its reinvestment share.
\<close>

theorem available_equation:
  assumes "config bm = Some c"
  shows "getAvailableAmount bm = totalBudget c - usedAmount c + reinvestedProfit c \<and>
         (\<forall>bm' \<in> {snd (setBudget env bm t d), snd (topupBudget env bm a),
                    snd (recordInvestment env bm amount),
                    snd (addProfitToReinvestment env bm p)}.
            \<exists>c'. config bm' = Some c' \<and>
                 getAvailableAmount bm' = totalBudget c' - usedAmount c' + reinvestedProfit c') \<and>
         (\<forall>r. fst (setBudget env bm t d) = Inr r \<longrightarrow>
              getAvailableAmount (snd (setBudget env bm t d)) = t) \<and>
         (\<forall>r. fst (topupBudget env bm a) = Inr r \<longrightarrow>
              getAvailableAmount (snd (topupBudget env bm a)) = getAvailableAmount bm + a) \<and>
         (fst (recordInvestment env bm amount) = Inr True \<longrightarrow>
              getAvailableAmount (snd (recordInvestment env bm amount)) =
                getAvailableAmount bm - amount) \<and>
         (\<forall>al. p = Some al \<longrightarrow>
              getAvailableAmount (snd (addProfitToReinvestment env bm p)) =
                getAvailableAmount bm + reinvestmentAmount al)"
proof -
  have eq: "\<And>b c'. config b = Some c' \<Longrightarrow>
          getAvailableAmount b = totalBudget c' - usedAmount c' + reinvestedProfit c'"
    by (simp add: getAvailableAmount_def)
  have s: "\<exists>c'. config (snd (setBudget env bm t d)) = Some c'"
    using assms by (rule setBudget_configured)
  have tp: "\<exists>c'. config (snd (topupBudget env bm a)) = Some c'"
    using assms by (simp add: topupBudget_cases Let_def)
  have ri: "\<exists>c'. config (snd (recordInvestment env bm amount)) = Some c'"
    using assms by (simp add: recordInvestment_Some)
  have ap: "\<exists>c'. config (snd (addProfitToReinvestment env bm p)) = Some c'"
    using assms by (cases p) (simp_all add: addProfitToReinvestment_Some addProfitToReinvestment_None)
  have 1: "getAvailableAmount bm = totalBudget c - usedAmount c + reinvestedProfit c"
    using assms by (rule eq)
  have 2: "\<forall>bm' \<in> {snd (setBudget env bm t d), snd (topupBudget env bm a),
                    snd (recordInvestment env bm amount),
                    snd (addProfitToReinvestment env bm p)}.
            \<exists>c'. config bm' = Some c' \<and>
                 getAvailableAmount bm' = totalBudget c' - usedAmount c' + reinvestedProfit c'"
    using s tp ri ap eq by auto
  have 3: "\<forall>r. fst (setBudget env bm t d) = Inr r \<longrightarrow>
              getAvailableAmount (snd (setBudget env bm t d)) = t"
    using setBudget_success by blast
  have 4: "\<forall>r. fst (topupBudget env bm a) = Inr r \<longrightarrow>
              getAvailableAmount (snd (topupBudget env bm a)) = getAvailableAmount bm + a"
    using assms by (simp add: topupBudget_cases Let_def getAvailableAmount_def)
  have 5: "fst (recordInvestment env bm amount) = Inr True \<longrightarrow>
              getAvailableAmount (snd (recordInvestment env bm amount)) =
                getAvailableAmount bm - amount"
    using assms by (simp add: recordInvestment_Some getAvailableAmount_def)
  have 6: "\<forall>al. p = Some al \<longrightarrow>
              getAvailableAmount (snd (addProfitToReinvestment env bm p)) =
                getAvailableAmount bm + reinvestmentAmount al"
    using assms by (simp add: addProfitToReinvestment_Some getAvailableAmount_def)
  from 1 2 3 4 5 6 show ?thesis by blast
qed

theorem available_equation_witness:
  "config exampleManager = Some exampleConfig \<and>
   getAvailableAmount exampleManager = 48500 \<and>
   getAvailableAmount (snd (recordInvestment exampleEnv exampleManager 1000)) = 47500"
proof -
  have c: "config exampleManager = Some exampleConfig"
    by (simp add: exampleManager_def)
  have r: "fst (recordInvestment exampleEnv exampleManager 1000) = Inr True"
    by (simp add: recordInvestment_Some [OF c] exampleConfig_def)
  from available_equation [OF c, of exampleEnv 0 None 0 1000 None] r
  show ?thesis
    by (simp add: c exampleConfig_def)
qed

text \<open>
  Claim C8. On a configured budget \<open>topupBudget(additionalAmount)\<close> throws when
  \<open>additionalAmount < 1000\<close> and when \<open>50 - daysCompleted \<le> 0\<close>; after either
  failure \<open>totalBudget\<close>, \<open>dailyAmount\<close>, \<open>usedAmount\<close> and \<open>reinvestedProfit\<close> are
  what they were. When it returns, \<open>totalBudget\<close> has grown by \<open>additionalAmount\<close>
  and \<open>dailyAmount\<close> is the new total divided by 50; it does return when the amount
  and the remaining days allow it and the configuration can be saved.
\<close>

theorem topupBudget_spec:
  assumes "config bm = Some c"
  shows "(a < 1000 \<longrightarrow> topupBudget env bm a = (Inl MinimumTopup, bm)) \<and>
         (\<not> a < 1000 \<and> 50 - fst (calculateDaysCompleted env bm) \<le> 0 \<longrightarrow>
            fst (topupBudget env bm a) = Inl PeriodCompleted \<and>
            (\<exists>c'. config (snd (topupBudget env bm a)) = Some c' \<and>
                  totalBudget c' = totalBudget c \<and> dailyAmount c' = dailyAmount c \<and>
                  usedAmount c' = usedAmount c \<and> reinvestedProfit c' = reinvestedProfit c)) \<and>
         (\<forall>r. fst (topupBudget env bm a) = Inr r \<longrightarrow>
            (\<exists>c'. config (snd (topupBudget env bm a)) = Some c' \<and>
                  totalBudget c' = totalBudget c + a \<and> dailyAmount c' = totalBudget c' / 50 \<and>
                  usedAmount c' = usedAmount c \<and> reinvestedProfit c' = reinvestedProfit c)) \<and>
         (\<not> a < 1000 \<and> 0 < 50 - fst (calculateDaysCompleted env bm) \<and>
            supabase bm \<and> writeSucceeds env \<longrightarrow> (\<exists>r. fst (topupBudget env bm a) = Inr r))"
  using assms
  by (simp add: topupBudget_cases calculateDaysCompleted_Some Let_def)

theorem topupBudget_spec_witness:
  "config exampleManager = Some exampleConfig \<and>
   topupBudget exampleEnv exampleManager 500 = (Inl MinimumTopup, exampleManager) \<and>
   map_option totalBudget (config (snd (topupBudget exampleEnv exampleManager 1000))) = Some 51000 \<and>
   map_option dailyAmount (config (snd (topupBudget exampleEnv exampleManager 1000))) = Some 1020"
proof -
  have c: "config exampleManager = Some exampleConfig"
    by (simp add: exampleManager_def)
  have d: "fst (calculateDaysCompleted exampleEnv exampleManager) = 1"
    by (simp add: calculateDaysCompleted_Some [OF c] exampleConfig_def exampleEnv_def exampleDays)
  have e: "supabase exampleManager \<and> writeSucceeds exampleEnv"
    by (simp add: exampleManager_def exampleEnv_def)
  have t: "totalBudget exampleConfig = 50000"
    by (simp add: exampleConfig_def)
  from topupBudget_spec [OF c, of 500 exampleEnv]
  have 1: "topupBudget exampleEnv exampleManager 500 = (Inl MinimumTopup, exampleManager)"
    by simp
  from topupBudget_spec [OF c, of 1000 exampleEnv] d e
  obtain r where r: "fst (topupBudget exampleEnv exampleManager 1000) = Inr r"
    by auto
  with topupBudget_spec [OF c, of 1000 exampleEnv] t
  have 2: "map_option totalBudget (config (snd (topupBudget exampleEnv exampleManager 1000))) = Some 51000 \<and>
   map_option dailyAmount (config (snd (topupBudget exampleEnv exampleManager 1000))) = Some 1020"
    by auto
  from c 1 2 show ?thesis by simp
qed

text \<open>
  Claim C5, as stated, fails at \<open>profit = 1000\<close>, \<open>holdingPeriod = 400\<close>: the
  allocation's net, tax and brokerage amounts add up to the profit, 1000 and not 975,
  and its \<open>taxRate\<close> field holds the percentage 12.5, not the factor 0.125.
\<close>

theorem calculateProfitAllocation_claimed_sum_counterexample:
  "calculateProfitAllocation 1000 400 =
     Some \<lparr>totalProfit = 1000, taxType = LTCG, taxRate = 12.5, taxAmount = 125,
           brokerageAmount = 50, reinvestmentAmount = 800, netAmount = 825,
           holdingPeriod = 400\<rparr> \<and>
   netAmount (the (calculateProfitAllocation 1000 400))
     + taxAmount (the (calculateProfitAllocation 1000 400))
     + brokerageAmount (the (calculateProfitAllocation 1000 400)) \<noteq> 975 \<and>
   taxRate (the (calculateProfitAllocation 1000 400)) \<noteq> 0.125"
  by (simp add: calculateProfitAllocation_def Let_def)

text \<open>
  Claim C5, amended. \<open>calculateProfitAllocation\<close> returns \<open>null\<close> when
  \<open>profit \<le> 0\<close>. Otherwise the tax is short-term for a holding period of at most 365
  days and long-term beyond; the allocation's \<open>taxRate\<close> field is the percentage (15 or
  12.5), \<open>taxAmount\<close> is the profit times 0.15 or 0.125, \<open>brokerageAmount\<close> the profit
  times 0.05, \<open>reinvestmentAmount\<close> the profit times 0.80 and \<open>netAmount\<close> the
  profit less tax and brokerage. For a profit of 1000 held 400 days: tax 125, brokerage
  50, reinvestment 800, net 825; tax, brokerage and reinvestment add up to 975, while
  net, tax and brokerage add up to 1000.
\<close>

theorem calculateProfitAllocation_spec:
  "(profit \<le> 0 \<longrightarrow> calculateProfitAllocation profit days = None) \<and>
   (0 < profit \<longrightarrow>
      calculateProfitAllocation profit days =
        Some \<lparr>totalProfit = profit,
              taxType = (if days \<le> 365 then STCG else LTCG),
              taxRate = (if days \<le> 365 then 15 else 12.5),
              taxAmount = profit * (if days \<le> 365 then 0.15 else 0.125),
              brokerageAmount = profit * 0.05,
              reinvestmentAmount = profit * 0.80,
              netAmount = profit - profit * (if days \<le> 365 then 0.15 else 0.125) - profit * 0.05,
              holdingPeriod = days\<rparr>) \<and>
   (\<forall>a. calculateProfitAllocation 1000 400 = Some a \<longrightarrow>
      taxAmount a = 125 \<and> brokerageAmount a = 50 \<and> reinvestmentAmount a = 800 \<and>
      netAmount a = 825 \<and>
      taxAmount a + brokerageAmount a + reinvestmentAmount a = 975 \<and>
      netAmount a + taxAmount a + brokerageAmount a = 1000)"
  by (auto simp: calculateProfitAllocation_def Let_def)

theorem calculateProfitAllocation_spec_witness:
  "(0::real) < 1000 \<and>
   calculateProfitAllocation 1000 100 =
     Some \<lparr>totalProfit = 1000, taxType = STCG, taxRate = 15, taxAmount = 150,
           brokerageAmount = 50, reinvestmentAmount = 800, netAmount = 800,
           holdingPeriod = 100\<rparr> \<and>
   calculateProfitAllocation 0 100 = None"
  using calculateProfitAllocation_spec [of 1000 100] calculateProfitAllocation_spec [of 0 100]
  by simp

text \<open>
  Claim C4: a case the code gets wrong. With a total budget of 95626.17, 58289.46 used
  and 70.93 of reinvested profit, the program computes an available amount of 37407.64.
  \<open>recordInvestment(37407.64)\<close> is not more than that, so it returns \<open>true\<close>; the sum it
  stores in \<open>usedAmount\<close> is rounded up and is greater than \<open>totalBudget +
  reinvestedProfit\<close>, both as the program computes that sum and exactly, and the
  available amount it then reports is negative.
\<close>

theorem recordInvestment_binary64_overdraws:
  "getAvailableAmount_binary64 overdrawnManager = binary64 37407.64 \<and>
   fst (recordInvestment_binary64 exampleEnv overdrawnManager (binary64 37407.64)) = Inr True \<and>
   map_option usedAmount
     (config (snd (recordInvestment_binary64 exampleEnv overdrawnManager (binary64 37407.64)))) =
     Some (3288127318576333 / 2 ^ 35) \<and>
   map_option (\<lambda>c. binary64 (totalBudget c + reinvestedProfit c))
     (config (snd (recordInvestment_binary64 exampleEnv overdrawnManager (binary64 37407.64)))) =
     Some (6576254637152665 / 2 ^ 36) \<and>
   map_option (\<lambda>c. totalBudget c + reinvestedProfit c < usedAmount c)
     (config (snd (recordInvestment_binary64 exampleEnv overdrawnManager (binary64 37407.64)))) =
     Some True \<and>
   getAvailableAmount_binary64
     (snd (recordInvestment_binary64 exampleEnv overdrawnManager (binary64 37407.64))) =
     - 133 / 2 ^ 44"
proof -
  have t: "binary64 (95626.17) = 6571380364667781 / 2 ^ 36"
    using binary64_eq [of 36 "95626.17" 6571380364667781] by simp
  have u: "binary64 (58289.46) = 8011242380848005 / 2 ^ 37"
    using binary64_eq [of 37 "58289.46" 8011242380848005] by simp
  have r: "binary64 (70.93) = 1247813756130427 / 2 ^ 44"
    using binary64_eq [of 46 "70.93" 4991255024521708] by simp
  have am: "binary64 (37407.64) = 2570633446728663 / 2 ^ 36"
    using binary64_eq [of 37 "37407.64" 5141266893457326] by simp
  have s1: "binary64 (6571380364667781 / 2 ^ 36 - 8011242380848005 / 2 ^ 37) = 5131518348487557 / 2 ^ 37"
    using binary64_eq [of 37 "6571380364667781 / 2 ^ 36 - 8011242380848005 / 2 ^ 37" 5131518348487557] by simp
  have av: "binary64 (5131518348487557 / 2 ^ 37 + 1247813756130427 / 2 ^ 44) = 2570633446728663 / 2 ^ 36"
    using binary64_eq [of 37 "5131518348487557 / 2 ^ 37 + 1247813756130427 / 2 ^ 44" 5141266893457326] by simp
  have u2: "binary64 (8011242380848005 / 2 ^ 37 + 2570633446728663 / 2 ^ 36) = 3288127318576333 / 2 ^ 35"
    using binary64_tie_up [of 36 "8011242380848005 / 2 ^ 37 + 2570633446728663 / 2 ^ 36" 6576254637152666] by simp
  have tr: "binary64 (6571380364667781 / 2 ^ 36 + 1247813756130427 / 2 ^ 44) = 6576254637152665 / 2 ^ 36"
    using binary64_eq [of 36 "6571380364667781 / 2 ^ 36 + 1247813756130427 / 2 ^ 44" 6576254637152665] by simp
  have s2: "binary64 (6571380364667781 / 2 ^ 36 - 3288127318576333 / 2 ^ 35) = - 4874272484885 / 2 ^ 36"
    using binary64_eq [of 46 "6571380364667781 / 2 ^ 36 - 3288127318576333 / 2 ^ 35" "- 4991255024522240"] by simp
  have av2: "binary64 (- 4874272484885 / 2 ^ 36 + 1247813756130427 / 2 ^ 44) = - 133 / 2 ^ 44"
    using binary64_eq [of 89 "- 4874272484885 / 2 ^ 36 + 1247813756130427 / 2 ^ 44" "- 4679521487814656"] by simp
  let ?run = "recordInvestment_binary64 exampleEnv overdrawnManager (binary64 37407.64)"
  define c' where "c' = overdrawnConfig\<lparr>usedAmount := 3288127318576333 / 2 ^ 35, daysCompleted := 1\<rparr>"
  have c: "config overdrawnManager = Some overdrawnConfig"
    by (simp add: overdrawnManager_def)
  have f: "totalBudget overdrawnConfig = 6571380364667781 / 2 ^ 36"
          "usedAmount overdrawnConfig = 8011242380848005 / 2 ^ 37"
          "reinvestedProfit overdrawnConfig = 1247813756130427 / 2 ^ 44"
    unfolding overdrawnConfig_def t u r by simp_all
  have a1: "getAvailableAmount_binary64 overdrawnManager = 2570633446728663 / 2 ^ 36"
    unfolding getAvailableAmount_binary64_def c option.case f s1 av by simp
  have sd: "startDate overdrawnConfig = 0"
    by (simp add: overdrawnConfig_def)
  have ud: "updateDisplay exampleEnv (overdrawnManager\<lparr>config := Some (overdrawnConfig\<lparr>usedAmount := x\<rparr>)\<rparr>) =
              overdrawnManager\<lparr>config := Some (overdrawnConfig\<lparr>usedAmount := x, daysCompleted := 1\<rparr>)\<rparr>" for x
    by (simp add: updateDisplay_Some [of _ "overdrawnConfig\<lparr>usedAmount := x\<rparr>"] sd
          exampleEnv_def exampleDays)
  have run: "?run = (Inr True, overdrawnManager\<lparr>config := Some c'\<rparr>)"
    by (simp only: recordInvestment_binary64_def c option.case a1 am f Let_def
          order_less_irrefl if_False u2 ud c'_def)
  have cfg: "config (snd ?run) = Some c'"
    unfolding run by simp
  have g: "totalBudget c' = 6571380364667781 / 2 ^ 36"
          "usedAmount c' = 3288127318576333 / 2 ^ 35"
          "reinvestedProfit c' = 1247813756130427 / 2 ^ 44"
    using f by (simp_all add: c'_def)
  have 1: "getAvailableAmount_binary64 overdrawnManager = binary64 37407.64"
    unfolding a1 am by simp
  have 2: "fst ?run = Inr True"
    unfolding run by simp
  have 3: "map_option usedAmount (config (snd ?run)) = Some (3288127318576333 / 2 ^ 35)"
    unfolding cfg option.map g by simp
  have 4: "map_option (\<lambda>c. binary64 (totalBudget c + reinvestedProfit c)) (config (snd ?run)) =
             Some (6576254637152665 / 2 ^ 36)"
    unfolding cfg option.map g tr by simp
  have 5: "map_option (\<lambda>c. totalBudget c + reinvestedProfit c < usedAmount c) (config (snd ?run)) =
             Some True"
    unfolding cfg option.map g by simp
  have 6: "getAvailableAmount_binary64 (snd ?run) = - 133 / 2 ^ 44"
    unfolding getAvailableAmount_binary64_def cfg option.case g s2 av2 by simp
  from 1 2 3 4 5 6 show ?thesis
    by (intro conjI)
qed



section \<open>Ranking\<close>

lemma js_insert_ascending:
  fixes f :: "'a \<Rightarrow> 'b::linordered_idom"
  shows "js_insert (\<lambda>a b. f a - f b) x ys = insort_key f x ys"
  by (induction ys) simp_all

lemma js_sort_ascending:
  fixes f :: "'a \<Rightarrow> 'b::linordered_idom"
  shows "js_sort (\<lambda>a b. f a - f b) xs = sort_key f xs"
proof -
  have "js_insert (\<lambda>a b. f a - f b) = insort_key f"
    by (intro ext) (rule js_insert_ascending)
  then show ?thesis
    by (simp add: js_sort_def sort_key_def)
qed



lemma rank_rankFrom: "map rank (rankFrom i es) = [i + 1..<i + 1 + length es]"
  by (induction es arbitrary: i) (simp_all add: upt_conv_Cons del: upt_Suc)

lemma ranking_etf_rankFrom: "map ranking_etf (rankFrom i es) = es"
  by (induction es arbitrary: i) simp_all

lemma ranking_deviation_rankFrom: "map ranking_deviation (rankFrom i es) = map deviation es"
  by (induction es arbitrary: i) simp_all

lemma ranking_etf_id_rankFrom: "map ranking_etf_id (rankFrom i es) = map id' es"
  by (induction es arbitrary: i) simp_all

lemma calculateRankings_Rows:
  assumes "connected db" "etfs_query db = Rows rows" "ranks_insert_ok db"
  shows "calculateRankings db =
           Inr (sort_key deviation (map withDeviation rows),
                rankFrom 0 (sort_key deviation (map withDeviation rows)))"
  using assms by (simp add: calculateRankings_def Let_def js_sort_ascending)

lemma first_rank_least:
  assumes ranks: "map rank rs = [1..<length rs + 1]"
      and srt: "sorted (map ranking_deviation rs)"
      and r: "r \<in> set rs" "rank r = 1" and r': "r' \<in> set rs"
  shows "ranking_deviation r \<le> ranking_deviation r'"
proof -
  from r(1) obtain i where i: "i < length rs" "rs ! i = r"
    by (auto simp: in_set_conv_nth)
  from r' obtain j where j: "j < length rs" "rs ! j = r'"
    by (auto simp: in_set_conv_nth)
  have "rank (rs ! i) = map rank rs ! i"
    using i by simp
  also have "\<dots> = 1 + i"
    using i unfolding ranks by (simp del: upt_Suc)
  finally have "i = 0"
    using i r(2) by simp
  have "map ranking_deviation rs ! 0 \<le> map ranking_deviation rs ! j"
    using srt j by (intro sorted_nth_mono) simp_all
  then show ?thesis
    using i j \<open>i = 0\<close> by simp
qed

text \<open>
  Claim C6. When the instruments are read and the ranks stored without a database error,
  \<open>calculateRankings\<close> gives each instrument the deviation
  \<open>(cmp - dma_20) / dma_20 * 100\<close>, or 0 when \<open>dma_20 = 0\<close>, returns the instruments
  rearranged in ascending order of deviation, and numbers them 1, ..., N in that order;
  the entry of rank 1 has the least deviation.
\<close>

theorem calculateRankings_spec:
  assumes "connected db" "etfs_query db = Rows rows" "ranks_insert_ok db"
  shows "\<exists>ranked rankings.
           calculateRankings db = Inr (ranked, rankings) \<and>
           mset ranked = mset (map withDeviation rows) \<and>
           (\<forall>e \<in> set rows.
              id' (withDeviation e) = id' e \<and> cmp (withDeviation e) = cmp e \<and>
              dma_20 (withDeviation e) = dma_20 e \<and>
              deviation (withDeviation e) =
                (if dma_20 e = 0 then 0 else (cmp e - dma_20 e) / dma_20 e * 100)) \<and>
           sorted (map deviation ranked) \<and>
           map ranking_etf rankings = ranked \<and>
           map ranking_deviation rankings = map deviation ranked \<and>
           map rank rankings = [1..<length rows + 1] \<and>
           (\<forall>r \<in> set rankings. \<forall>r' \<in> set rankings.
              rank r = 1 \<longrightarrow> ranking_deviation r \<le> ranking_deviation r')"
proof -
  define ranked where "ranked = sort_key deviation (map withDeviation rows)"
  define rankings where "rankings = rankFrom 0 ranked"
  have c: "calculateRankings db = Inr (ranked, rankings)"
    using assms by (simp add: calculateRankings_Rows ranked_def rankings_def)
  have m: "mset ranked = mset (map withDeviation rows)"
    by (simp add: ranked_def)
  have d: "\<forall>e \<in> set rows.
              id' (withDeviation e) = id' e \<and> cmp (withDeviation e) = cmp e \<and>
              dma_20 (withDeviation e) = dma_20 e \<and>
              deviation (withDeviation e) =
                (if dma_20 e = 0 then 0 else (cmp e - dma_20 e) / dma_20 e * 100)"
    by (simp add: withDeviation_def calculateDeviation_def)
  have s: "sorted (map deviation ranked)"
    by (simp add: ranked_def)
  have l: "length ranked = length rows"
    by (simp add: ranked_def)
  have e: "map ranking_etf rankings = ranked"
    by (simp add: rankings_def ranking_etf_rankFrom)
  have v: "map ranking_deviation rankings = map deviation ranked"
    by (simp add: rankings_def ranking_deviation_rankFrom)
  have k: "map rank rankings = [1..<length rows + 1]"
    by (simp add: rankings_def rank_rankFrom l)
  have lr: "length rankings = length rows"
    using e l by (metis length_map)
  have f: "\<forall>r \<in> set rankings. \<forall>r' \<in> set rankings.
              rank r = 1 \<longrightarrow> ranking_deviation r \<le> ranking_deviation r'"
    using first_rank_least [of rankings] k s v lr by auto
  from c m d s e v k f show ?thesis
    by blast
qed

theorem calculateRankings_spec_witness:
  "connected exampleDb \<and> etfs_query exampleDb = Rows exampleRows \<and> ranks_insert_ok exampleDb \<and>
   calculateRankings exampleDb = Inr (exampleRanked, rankFrom 0 exampleRanked) \<and>
   map rank (rankFrom 0 exampleRanked) = [1, 2, 3] \<and>
   map ranking_etf_id (rankFrom 0 exampleRanked) = [''B'', ''C'', ''A'']"
proof -
  have h: "connected exampleDb" "etfs_query exampleDb = Rows exampleRows" "ranks_insert_ok exampleDb"
    by (simp_all add: exampleDb_def)
  have r: "sort_key deviation (map withDeviation exampleRows) = exampleRanked"
    by (simp add: exampleRows_def exampleRanked_def withDeviation_def calculateDeviation_def)
  from calculateRankings_spec [OF h] obtain ranked rankings where
    c: "calculateRankings exampleDb = Inr (ranked, rankings)"
    by blast
  with calculateRankings_Rows [OF h] r
  have "calculateRankings exampleDb = Inr (exampleRanked, rankFrom 0 exampleRanked)"
    by simp
  then show ?thesis
    using h by (simp add: exampleRanked_def)
qed

section \<open>Sell and buy decisions\<close>








lemma eligible_loop_etfs:
  "map option_etf (eligible_loop cfg bm held i es) = filter (\<lambda>e. id' e \<notin> set held) es"
  by (induction es arbitrary: i) simp_all

lemma eligible_loop_rank:
  "opt \<in> set (eligible_loop cfg bm held i es) \<Longrightarrow>
   \<exists>k < length es. option_rank opt = i + 1 + k \<and> es ! k = option_etf opt \<and>
      option_quantity opt = calculateRecommendedQuantity cfg bm (cmp (option_etf opt))"
proof (induction es arbitrary: i)
  case Nil
  then show ?case by simp
next
  case (Cons e es)
  show ?case
  proof (cases "opt = BUY e (RankNotHeld (i + 1) (deviation e))
                        (calculateRecommendedQuantity cfg bm (cmp e)) (i + 1)")
    case True
    then have "0 < length (e # es) \<and> option_rank opt = i + 1 + 0 \<and>
        (e # es) ! 0 = option_etf opt \<and>
        option_quantity opt = calculateRecommendedQuantity cfg bm (cmp (option_etf opt))"
      by simp
    then show ?thesis by blast
  next
    case False
    with Cons.prems have "opt \<in> set (eligible_loop cfg bm held (i + 1) es)"
      by (auto split: if_splits)
    from Cons.IH [OF this] obtain k where
      "k < length es" "option_rank opt = i + 1 + 1 + k" "es ! k = option_etf opt"
      "option_quantity opt = calculateRecommendedQuantity cfg bm (cmp (option_etf opt))"
      by blast
    then have "Suc k < length (e # es) \<and> option_rank opt = i + 1 + Suc k \<and>
        (e # es) ! Suc k = option_etf opt \<and>
        option_quantity opt = calculateRecommendedQuantity cfg bm (cmp (option_etf opt))"
      by simp
    then show ?thesis by blast
  qed
qed

lemma eligible_loop_ranks_increase:
  "sorted_wrt (<) (map option_rank (eligible_loop cfg bm held i es))"
proof (induction es arbitrary: i)
  case Nil
  then show ?case by simp
next
  case (Cons e es)
  have "\<forall>opt \<in> set (eligible_loop cfg bm held (i + 1) es). i + 1 < option_rank opt"
    using eligible_loop_rank [of _ cfg bm held "i + 1" es] by fastforce
  with Cons.IH [of "i + 1"] show ?case
    by auto
qed

lemma average_loop_AVERAGE:
  "average_loop cfg bm ranked hs = Some a \<Longrightarrow> \<exists>e r q. a = AVERAGE e r q"
  by (induction hs) (auto simp: Let_def split: option.splits if_splits)

lemma take_maxRank: "take (min k (length xs)) xs = take k xs"
  by (simp add: min_def)

text \<open>
  Claim C1. With five ranks considered, if some instrument among the first five of the
  ranking is not held, \<open>determineBuyAction\<close> returns \<open>MULTIPLE_OPTIONS\<close>: its options
  are, in rank order, exactly the instruments among the first five that are not held,
  each with its position in the ranking as rank, and the default option is the first,
  which has the smallest rank. \<open>AVERAGE\<close> is returned only when all of the first five
  are held, and then \<open>MULTIPLE_OPTIONS\<close> is not returned.
\<close>

theorem determineBuyAction_spec:
  assumes "maxRankToConsider cfg = 5"
  shows "((\<exists>e \<in> set (take 5 ranked). id' e \<notin> set held) \<longrightarrow>
            (\<exists>opts. determineBuyAction cfg bm ranked held holdings =
                      Some (MULTIPLE_OPTIONS opts (hd opts) (EligibleCount (length opts))) \<and>
                    opts \<noteq> [] \<and>
                    map option_etf opts = filter (\<lambda>e. id' e \<notin> set held) (take 5 ranked) \<and>
                    sorted_wrt (<) (map option_rank opts) \<and>
                    (\<forall>opt \<in> set opts.
                       1 \<le> option_rank opt \<and> option_rank opt \<le> 5 \<and>
                       option_rank opt \<le> length ranked \<and>
                       ranked ! (option_rank opt - 1) = option_etf opt))) \<and>
         (\<forall>e r q. determineBuyAction cfg bm ranked held holdings = Some (AVERAGE e r q) \<longrightarrow>
            (\<forall>x \<in> set (take 5 ranked). id' x \<in> set held)) \<and>
         ((\<forall>x \<in> set (take 5 ranked). id' x \<in> set held) \<longrightarrow>
            (\<forall>opts d r. determineBuyAction cfg bm ranked held holdings \<noteq>
                          Some (MULTIPLE_OPTIONS opts d r)))"
proof -
  define el where "el = eligible_loop cfg bm held 0 (take 5 ranked)"
  have etfs: "map option_etf el = filter (\<lambda>e. id' e \<notin> set held) (take 5 ranked)"
    by (simp add: el_def eligible_loop_etfs)
  have empty: "el = [] \<longleftrightarrow> (\<forall>x \<in> set (take 5 ranked). id' x \<in> set held)"
  proof -
    have "el = [] \<longleftrightarrow> map option_etf el = []"
      by simp
    also have "\<dots> \<longleftrightarrow> (\<forall>x \<in> set (take 5 ranked). id' x \<in> set held)"
      unfolding etfs by (auto simp: filter_empty_conv)
    finally show ?thesis .
  qed
  have d: "determineBuyAction cfg bm ranked held holdings =
             (case el of
                first # _ \<Rightarrow> Some (MULTIPLE_OPTIONS el first (EligibleCount (length el)))
              | [] \<Rightarrow> average_loop cfg bm ranked holdings)"
    using assms unfolding el_def
    by (simp add: determineBuyAction_def take_maxRank Let_def)
  have ranks: "\<forall>opt \<in> set el.
                 1 \<le> option_rank opt \<and> option_rank opt \<le> 5 \<and>
                 option_rank opt \<le> length ranked \<and>
                 ranked ! (option_rank opt - 1) = option_etf opt"
  proof
    fix opt assume "opt \<in> set el"
    from eligible_loop_rank [OF this [unfolded el_def]] obtain k where
      k: "k < length (take 5 ranked)" "option_rank opt = 0 + 1 + k"
         "take 5 ranked ! k = option_etf opt"
      by blast
    then have "k < 5" "k < length ranked"
      by simp_all
    then have "take 5 ranked ! k = ranked ! k"
      by simp
    with k \<open>k < 5\<close> \<open>k < length ranked\<close> show "1 \<le> option_rank opt \<and> option_rank opt \<le> 5 \<and>
                 option_rank opt \<le> length ranked \<and>
                 ranked ! (option_rank opt - 1) = option_etf opt"
      by simp
  qed
  have 1: "(\<exists>e \<in> set (take 5 ranked). id' e \<notin> set held) \<longrightarrow>
            (\<exists>opts. determineBuyAction cfg bm ranked held holdings =
                      Some (MULTIPLE_OPTIONS opts (hd opts) (EligibleCount (length opts))) \<and>
                    opts \<noteq> [] \<and>
                    map option_etf opts = filter (\<lambda>e. id' e \<notin> set held) (take 5 ranked) \<and>
                    sorted_wrt (<) (map option_rank opts) \<and>
                    (\<forall>opt \<in> set opts.
                       1 \<le> option_rank opt \<and> option_rank opt \<le> 5 \<and>
                       option_rank opt \<le> length ranked \<and>
                       ranked ! (option_rank opt - 1) = option_etf opt))"
  proof
    assume "\<exists>e \<in> set (take 5 ranked). id' e \<notin> set held"
    with empty have ne: "el \<noteq> []"
      by blast
    then have "determineBuyAction cfg bm ranked held holdings =
                 Some (MULTIPLE_OPTIONS el (hd el) (EligibleCount (length el)))"
      unfolding d by (cases el) simp_all
    moreover have "sorted_wrt (<) (map option_rank el)"
      unfolding el_def by (rule eligible_loop_ranks_increase)
    ultimately show "\<exists>opts. determineBuyAction cfg bm ranked held holdings =
                      Some (MULTIPLE_OPTIONS opts (hd opts) (EligibleCount (length opts))) \<and>
                    opts \<noteq> [] \<and>
                    map option_etf opts = filter (\<lambda>e. id' e \<notin> set held) (take 5 ranked) \<and>
                    sorted_wrt (<) (map option_rank opts) \<and>
                    (\<forall>opt \<in> set opts.
                       1 \<le> option_rank opt \<and> option_rank opt \<le> 5 \<and>
                       option_rank opt \<le> length ranked \<and>
                       ranked ! (option_rank opt - 1) = option_etf opt)"
      using ne etfs ranks by blast
  qed
  have 2: "\<forall>e r q. determineBuyAction cfg bm ranked held holdings = Some (AVERAGE e r q) \<longrightarrow>
            (\<forall>x \<in> set (take 5 ranked). id' x \<in> set held)"
  proof (intro allI impI)
    fix e r q
    assume a: "determineBuyAction cfg bm ranked held holdings = Some (AVERAGE e r q)"
    have "el = []"
    proof (cases el)
      case Nil
      then show ?thesis .
    next
      case (Cons first rest)
      with a d show ?thesis by simp
    qed
    with empty show "\<forall>x \<in> set (take 5 ranked). id' x \<in> set held"
      by blast
  qed
  have 3: "(\<forall>x \<in> set (take 5 ranked). id' x \<in> set held) \<longrightarrow>
            (\<forall>opts d r. determineBuyAction cfg bm ranked held holdings \<noteq>
                          Some (MULTIPLE_OPTIONS opts d r))"
  proof (intro allI impI)
    fix opts dflt r
    assume "\<forall>x \<in> set (take 5 ranked). id' x \<in> set held"
    with empty have "el = []"
      by blast
    then have "determineBuyAction cfg bm ranked held holdings =
                 average_loop cfg bm ranked holdings"
      unfolding d by simp
    then show "determineBuyAction cfg bm ranked held holdings \<noteq>
                 Some (MULTIPLE_OPTIONS opts dflt r)"
      using average_loop_AVERAGE [of cfg bm ranked holdings "MULTIPLE_OPTIONS opts dflt r"]
      by auto
  qed
  from 1 2 3 show ?thesis
    by blast
qed

theorem determineBuyAction_spec_witness:
  "maxRankToConsider TradingStrategy_config = 5 \<and>
   determineBuyAction TradingStrategy_config exampleManager exampleRanked [''B''] [] =
     Some (MULTIPLE_OPTIONS
             [BUY (exampleRanked ! 1) (RankNotHeld 2 0) 5 2,
              BUY (exampleRanked ! 2) (RankNotHeld 3 10) 2 3]
             (BUY (exampleRanked ! 1) (RankNotHeld 2 0) 5 2)
             (EligibleCount 2)) \<and>
   determineBuyAction TradingStrategy_config exampleManager exampleRanked [''B'', ''C'', ''A'']
       [(exampleHolding ''h4'' 0)\<lparr>etf_id := ''B''\<rparr>] =
     Some (AVERAGE (exampleRanked ! 0) (AveragingDown (- 10)) 2)"
proof -
  have m: "maxRankToConsider TradingStrategy_config = 5"
    by (simp add: TradingStrategy_config_def)
  have t: "averagingLossThreshold TradingStrategy_config = - 2.5"
    by (simp add: TradingStrategy_config_def)
  have q: "calculateRecommendedQuantity TradingStrategy_config exampleManager 50 = 5"
          "calculateRecommendedQuantity TradingStrategy_config exampleManager 110 = 2"
          "calculateRecommendedQuantity TradingStrategy_config exampleManager 90 = 2"
    by (rule quantity_250_at_50 quantity_250_at_110 quantity_250_at_90)+
  have 1: "determineBuyAction TradingStrategy_config exampleManager exampleRanked [''B''] [] =
     Some (MULTIPLE_OPTIONS
             [BUY (exampleRanked ! 1) (RankNotHeld 2 0) 5 2,
              BUY (exampleRanked ! 2) (RankNotHeld 3 10) 2 3]
             (BUY (exampleRanked ! 1) (RankNotHeld 2 0) 5 2)
             (EligibleCount 2))"
    by (simp add: determineBuyAction_def m exampleRanked_def q Let_def)
  have 2: "determineBuyAction TradingStrategy_config exampleManager exampleRanked [''B'', ''C'', ''A'']
       [(exampleHolding ''h4'' 0)\<lparr>etf_id := ''B''\<rparr>] =
     Some (AVERAGE (exampleRanked ! 0) (AveragingDown (- 10)) 2)"
    by (simp add: determineBuyAction_def m exampleRanked_def q Let_def exampleHolding_def
          calculatePercentageChange_100_90 t)
  have "\<exists>e \<in> set (take 5 exampleRanked). id' e \<notin> set [''B'']"
    by (simp add: exampleRanked_def)
  with determineBuyAction_spec [OF m, of exampleRanked "[''B'']" exampleManager "[]"]
  obtain opts where "determineBuyAction TradingStrategy_config exampleManager exampleRanked [''B''] [] =
       Some (MULTIPLE_OPTIONS opts (hd opts) (EligibleCount (length opts)))"
    by blast
  with m 1 2 show ?thesis
    by simp
qed

section \<open>Trading days and the host's time zone\<close>

lemma calculateEndDate_loop_done:
  "calculateEndDate_loop z d n n = Some d"
  by (subst calculateEndDate_loop.simps) simp

text \<open>
  Claim C9: a case the code gets wrong. The start date \<open>'1970-01-02'\<close>, a Friday, is
  read as midnight UTC, which on a host five hours behind UTC is Thursday evening.
  There \<open>calculateEndDate\<close> with one trading day steps to Friday evening local time and
  returns it: the time value of \<open>1970-01-03T00:00Z\<close>, not the following Monday
  (345600000), which a host on UTC gets. On the same host a budget that starts on
  \<open>'1970-01-03'\<close>, a Saturday, has one trading day completed an hour after that
  midnight, while it is still Friday evening there.
\<close>

theorem weekend_skipping_behind_UTC:
  "getDay 86400000 = 5 \<and>
   calculateEndDate utcMinus5 86400000 1 = Some 172800000 \<and>
   getDay_local utcMinus5 172800000 = 5 \<and>
   calculateEndDate (fixedOffsetZone 0) 86400000 1 = Some 345600000 \<and>
   getDay 172800000 = 6 \<and>
   calculateDaysCompleted_local utcMinus5 172800000 176400000 = Some 1 \<and>
   calculateDaysCompleted_local (fixedOffsetZone 0) 172800000 176400000 = Some 0"
proof -
  have n: "setDateNext (fixedOffsetZone off) d = d + 86400000" for off d
    by (simp add: setDateNext_def UTCTime_def LocalTime_def fixedOffsetZone_def msPerDay_def)
  have g: "getDay_local (fixedOffsetZone off) d = ((d + off) div 86400000 + 4) mod 7" for off d
    by (simp add: getDay_local_def LocalTime_def fixedOffsetZone_def msPerDay_def)
  have 1: "getDay 86400000 = 5" and 5: "getDay 172800000 = 6"
    by (simp_all add: getDay_def msPerDay_def)
  have 2: "calculateEndDate utcMinus5 86400000 1 = Some 172800000"
    unfolding calculateEndDate_def utcMinus5_def
    by (subst calculateEndDate_loop.simps) (simp add: n g calculateEndDate_loop_done)
  have 3: "getDay_local utcMinus5 172800000 = 5"
    by (simp add: utcMinus5_def g)
  have "calculateEndDate_loop (fixedOffsetZone 0) 259200000 0 1 = Some 345600000"
    by (subst calculateEndDate_loop.simps) (simp add: n g calculateEndDate_loop_done)
  then have "calculateEndDate_loop (fixedOffsetZone 0) 172800000 0 1 = Some 345600000"
    by (subst calculateEndDate_loop.simps) (simp add: n g)
  then have 4: "calculateEndDate (fixedOffsetZone 0) 86400000 1 = Some 345600000"
    unfolding calculateEndDate_def
    by (subst calculateEndDate_loop.simps) (simp add: n g)
  have e: "calculateDaysCompleted_local_loop z 259200000 176400000 k = Some k" for z k
    by (subst calculateDaysCompleted_local_loop.simps) simp
  have 6: "calculateDaysCompleted_local utcMinus5 172800000 176400000 = Some 1"
    unfolding calculateDaysCompleted_local_def utcMinus5_def
    by (subst calculateDaysCompleted_local_loop.simps) (simp add: n g e)
  have 7: "calculateDaysCompleted_local (fixedOffsetZone 0) 172800000 176400000 = Some 0"
    unfolding calculateDaysCompleted_local_def
    by (subst calculateDaysCompleted_local_loop.simps) (simp add: n g e)
  from 1 2 3 4 5 6 7 show ?thesis
    by (intro conjI)
qed

end
